theory Spec2Isabelle
  imports Main "HOL-Library.AList"
begin

section \<open>The Node.js binding of tree-sitter-allium (bindings/node/binding.cc)\<close>

text \<open>
  The binding is one initialiser, \<open>Init\<close>, that stores two properties on the export
  object it is handed, and one lambda, registered under the name \<open>language\<close>, that wraps
  the pointer returned by the C function \<open>tree_sitter_allium\<close> in a
  \<open>Napi::External\<close>.  Both run against two pieces of state: the JavaScript heap
  behind \<open>Napi::Env\<close>, and the native side of the process, where the grammar descriptor
  lives.
\<close>

subsection \<open>Values and objects of the host runtime\<close>

type_synonym addr = nat
  \<comment> \<open>a native address, the value of a \<open>TSLanguage *\<close>\<close>

type_synonym ref = nat
  \<comment> \<open>the identity of a JavaScript object: its position in the heap\<close>

text \<open>
  \<open>Number\<close> carries the integral numbers only; the one number the binding ever meets is
  the \<open>length\<close> of a function, which is 0.
\<close>

datatype jsval = Undefined | Null | Boolean bool | Number int | Str string | Ref ref

text \<open>
  The native callbacks a function object can be bound to.  binding.cc contains a single
  one, the lambda of lines 9 to 11.
\<close>

datatype callback = Language_lambda

datatype kind = Plain | Function string callback | External addr

text \<open>
  A property holds a value and is writable or read-only.
\<close>

record property =
  pval :: jsval
  writable :: bool

definition data_prop :: "jsval \<Rightarrow> property" where
  "data_prop v = \<lparr>pval = v, writable = True\<rparr>"

definition read_only_prop :: "jsval \<Rightarrow> property" where
  "read_only_prop v = \<lparr>pval = v, writable = False\<rparr>"

text \<open>
  An object has a kind, is extensible or not, and has its own properties, kept in
  insertion order as JavaScript keeps them.  Prototype chains, accessor properties and
  proxies are not modelled, and neither is enumerability: \<open>props\<close> lists every own
  property.
\<close>

record jsobj =
  kind :: kind
  extensible :: bool
  props :: "(string \<times> property) list"

text \<open>
  The state every operation runs in.  \<open>heap\<close> holds the JavaScript objects, a reference
  being an index, so that the next free reference is \<open>length heap\<close> and allocation
  appends (objects are never collected in the model).  \<open>native\<close> stands for everything
  on the native side: the memory that holds the grammar descriptor and any state the
  grammar engine keeps.  Its type is left open.
\<close>

record 'n env =
  heap :: "jsobj list"
  native :: 'n

datatype napi_error = Object_expected | Function_expected

subsection \<open>The node-addon-api operations binding.cc calls\<close>

definition String_New :: "string \<Rightarrow> jsval" where
  "String_New s = Str s"

text \<open>
  A function made by \<open>Napi::Function::New\<close> is extensible and is born with the
  read-only own properties \<open>length\<close>, which is 0, and \<open>name\<close>, the name it was given.
  Other built-in own properties of functions are left out.
\<close>

definition function_object :: "string \<Rightarrow> callback \<Rightarrow> jsobj" where
  "function_object nm cb =
     \<lparr>kind = Function nm cb, extensible = True,
      props = [(''length'', read_only_prop (Number 0)), (''name'', read_only_prop (Str nm))]\<rparr>"

definition Function_New :: "'n env \<Rightarrow> callback \<Rightarrow> string \<Rightarrow> jsval \<times> 'n env" where
  "Function_New env cb nm =
     (Ref (length (heap env)), env\<lparr>heap := heap env @ [function_object nm cb]\<rparr>)"

text \<open>
  An external made by \<open>Napi::External<T>::New\<close> carries the address, has no
  properties and is not extensible.
\<close>

definition external_object :: "addr \<Rightarrow> jsobj" where
  "external_object p = \<lparr>kind = External p, extensible = False, props = []\<rparr>"

definition External_New :: "'n env \<Rightarrow> addr \<Rightarrow> jsval \<times> 'n env" where
  "External_New env p =
     (Ref (length (heap env)), env\<lparr>heap := heap env @ [external_object p]\<rparr>)"

text \<open>
  A store into an object, as \<open>Napi::Object::Set\<close> performs it: a writable property
  gets the new value and keeps its place, a read-only one stays as it is; a key the
  object does not have is added at the end (\<open>AList.update\<close> appends a missing key)
  when the object is extensible, and is not added otherwise.
\<close>

definition put :: "jsobj \<Rightarrow> string \<Rightarrow> jsval \<Rightarrow> jsobj" where
  "put ob key v =
     (case map_of (props ob) key of
        Some p \<Rightarrow>
          if writable p
          then ob\<lparr>props := AList.update key (p\<lparr>pval := v\<rparr>) (props ob)\<rparr>
          else ob
      | None \<Rightarrow>
          if extensible ob
          then ob\<lparr>props := AList.update key (data_prop v) (props ob)\<rparr>
          else ob)"

text \<open>
  \<open>Napi::Object::Set\<close>.  The key is a \<open>Napi::String\<close> in binding.cc and is passed here
  as the string it holds.  The call reports success also when the store did not take
  effect; only a handle that refers to no object makes it fail.
\<close>

definition Object_Set :: "'n env \<Rightarrow> ref \<Rightarrow> string \<Rightarrow> jsval \<Rightarrow> napi_error + 'n env" where
  "Object_Set env obj key v =
     (if obj < length (heap env)
      then Inr (env\<lparr>heap := (heap env)[obj := put (heap env ! obj) key v]\<rparr>)
      else Inl Object_expected)"

subsection \<open>binding.cc\<close>

text \<open>
  \<open>extern "C" const TSLanguage *tree_sitter_allium()\<close> is declared in binding.cc and
  defined in the generated parser, so it is a parameter of the model: a function that
  runs on the native state and returns an address and the native state it leaves.
\<close>

type_synonym 'n accessor = "'n \<Rightarrow> addr \<times> 'n"

text \<open>
  The lambda of lines 9 to 11.  \<open>info.Env()\<close> is the environment of the call,
  \<open>const_cast\<close> leaves the address as it is, and \<open>info\<close> is not used otherwise.
\<close>

definition language :: "'n accessor \<Rightarrow> 'n env \<Rightarrow> jsval list \<Rightarrow> jsval \<times> 'n env" where
  "language tree_sitter_allium env info =
     (let (p, n) = tree_sitter_allium (native env)
      in External_New (env\<lparr>native := n\<rparr>) p)"

text \<open>
  \<open>Init\<close>, lines 7 to 14.  An error of \<open>Set\<close> leaves the function at once, as the C++
  exception does.
\<close>

definition Init :: "'n env \<Rightarrow> ref \<Rightarrow> napi_error + (ref \<times> 'n env)" where
  "Init env exports =
     (case Object_Set env exports ''name'' (String_New ''allium'') of
        Inl e \<Rightarrow> Inl e
      | Inr env1 \<Rightarrow>
          (let (language_fn, env2) = Function_New env1 Language_lambda ''language''
           in case Object_Set env2 exports ''language'' language_fn of
                Inl e \<Rightarrow> Inl e
              | Inr env3 \<Rightarrow> Inr (exports, env3)))"

subsection \<open>What the host runtime does with the exports\<close>

text \<open>
  Reading a property (\<open>Napi::Object::Get\<close>, the script's \<open>exports.name\<close>): the value
  stored under the key, \<open>undefined\<close> when there is none.
\<close>

definition Object_Get :: "'n env \<Rightarrow> ref \<Rightarrow> string \<Rightarrow> napi_error + jsval" where
  "Object_Get env obj key =
     (if obj < length (heap env)
      then Inr (case map_of (props (heap env ! obj)) key of
                  None \<Rightarrow> Undefined
                | Some p \<Rightarrow> pval p)
      else Inl Object_expected)"

text \<open>
  The names of the own properties of an object, in their order.
\<close>

definition own_keys :: "'n env \<Rightarrow> ref \<Rightarrow> string list" where
  "own_keys env obj = map fst (props (heap env ! obj))"

text \<open>
  Calling a value (\<open>Napi::Function::Call\<close>, the script's \<open>f(...info)\<close>): a function
  object runs the native callback it is bound to, anything else is not callable.
\<close>

definition Function_Call ::
  "'n accessor \<Rightarrow> 'n env \<Rightarrow> jsval \<Rightarrow> jsval list \<Rightarrow> napi_error + (jsval \<times> 'n env)" where
  "Function_Call tree_sitter_allium env f info =
     (case f of
        Ref r \<Rightarrow>
          (if r < length (heap env)
           then (case kind (heap env ! r) of
                   Function nm Language_lambda \<Rightarrow> Inr (language tree_sitter_allium env info)
                 | _ \<Rightarrow> Inl Function_expected)
           else Inl Function_expected)
      | _ \<Rightarrow> Inl Function_expected)"

text \<open>
  \<open>Napi::External<T>::Data\<close>: the address an external handle carries.
\<close>

definition External_Data :: "'n env \<Rightarrow> jsval \<Rightarrow> addr option" where
  "External_Data env v =
     (case v of
        Ref r \<Rightarrow>
          (if r < length (heap env)
           then (case kind (heap env ! r) of External p \<Rightarrow> Some p | _ \<Rightarrow> None)
           else None)
      | _ \<Rightarrow> None)"

text \<open>
  Successive calls of one function value, one per argument list, each running in the
  state the call before it left; the results come back in call order.
\<close>

fun call_each ::
  "'n accessor \<Rightarrow> 'n env \<Rightarrow> jsval \<Rightarrow> jsval list list \<Rightarrow> napi_error + (jsval list \<times> 'n env)" where
  "call_each tree_sitter_allium env f [] = Inr ([], env)"
| "call_each tree_sitter_allium env f (info # infos) =
     (case Function_Call tree_sitter_allium env f info of
        Inl e \<Rightarrow> Inl e
      | Inr (h, env1) \<Rightarrow>
          (case call_each tree_sitter_allium env1 f infos of
             Inl e \<Rightarrow> Inl e
           | Inr (hs, env2) \<Rightarrow> Inr (h # hs, env2)))"

text \<open>
  The native side of those calls: the addresses \<open>k\<close> successive calls of the accessor
  return, and the native state the last one leaves.
\<close>

fun accessor_calls :: "'n accessor \<Rightarrow> 'n \<Rightarrow> nat \<Rightarrow> addr list \<times> 'n" where
  "accessor_calls tree_sitter_allium n 0 = ([], n)"
| "accessor_calls tree_sitter_allium n (Suc k) =
     (let (p, n1) = tree_sitter_allium n;
          (ps, n2) = accessor_calls tree_sitter_allium n1 k
      in (p # ps, n2))"

subsection \<open>Mutable export tables\<close>

text \<open>
  A store under a key takes effect on an object when the key names a writable property
  of it, or names none and the object is extensible.
\<close>

definition can_set :: "jsobj \<Rightarrow> string \<Rightarrow> bool" where
  "can_set ob key =
     (case map_of (props ob) key of
        Some p \<Rightarrow> writable p
      | None \<Rightarrow> extensible ob)"

text \<open>
  The export table a module loader hands to \<open>Init\<close> is a mutable one: a handle to a
  plain object of the heap on which stores under \<open>name\<close> and \<open>language\<close> take effect.
  Function objects, whose \<open>name\<close> is read-only, externals, which are not extensible,
  and frozen or sealed objects are not mutable tables.
\<close>

definition mutable_table :: "'n env \<Rightarrow> ref \<Rightarrow> bool" where
  "mutable_table env exports \<longleftrightarrow>
     exports < length (heap env) \<and>
     kind (heap env ! exports) = Plain \<and>
     can_set (heap env ! exports) ''name'' \<and>
     can_set (heap env ! exports) ''language''"

text \<open>
  The export object of a module that is being loaded, \<open>module.exports = {}\<close>.
\<close>

definition empty_table :: jsobj where
  "empty_table = \<lparr>kind = Plain, extensible = True, props = []\<rparr>"

section \<open>Properties\<close>

subsection \<open>What the two functions compute\<close>

lemma data_prop_simps [simp]:
  "pval (data_prop v) = v" "writable (data_prop v)"
  by (simp_all add: data_prop_def)

lemma object_kind_simps [simp]:
  "kind (function_object nm cb) = Function nm cb"
  "kind (external_object p) = External p"
  "kind empty_table = Plain" "extensible empty_table" "props empty_table = []"
  by (simp_all add: function_object_def external_object_def empty_table_def)

lemma mutable_table_valid:
  "mutable_table env exports \<Longrightarrow> exports < length (heap env)"
  by (simp add: mutable_table_def)

lemma language_result:
  "language tsa env info =
     (Ref (length (heap env)),
      env\<lparr>heap := heap env @ [external_object (fst (tsa (native env)))],
          native := snd (tsa (native env))\<rparr>)"
  by (simp add: language_def External_New_def split: prod.split)

lemma put_can_set:
  assumes "can_set ob key"
  shows "put ob key v = ob\<lparr>props := AList.update key (data_prop v) (props ob)\<rparr>"
proof (cases "map_of (props ob) key")
  case None
  with assms show ?thesis by (simp add: put_def can_set_def)
next
  case (Some p)
  with assms have "writable p" by (simp add: can_set_def)
  then have eq: "p\<lparr>pval := v\<rparr> = data_prop v" by (simp add: data_prop_def)
  from Some \<open>writable p\<close> show ?thesis by (simp add: put_def eq)
qed

lemma can_set_put_other:
  assumes "key' \<noteq> key"
  shows "can_set (put ob key v) key' = can_set ob key'"
  using assms by (simp add: can_set_def put_def update_conv split: option.split)

lemma put_frame:
  "kind (put ob key v) = kind ob"
  "extensible (put ob key v) = extensible ob"
  "key' \<noteq> key \<Longrightarrow> map_of (props (put ob key v)) key' = map_of (props ob) key'"
  by (simp_all add: put_def update_conv split: option.split)

lemma Init_steps:
  assumes "exports < length (heap env)"
  shows "Init env exports =
     Inr (exports,
          env\<lparr>heap := (heap env)
                 [exports := put (put (heap env ! exports) ''name'' (Str ''allium''))
                               ''language'' (Ref (length (heap env)))]
               @ [function_object ''language'' Language_lambda]\<rparr>)"
  using assms
  by (simp add: Init_def Object_Set_def Function_New_def String_New_def
      nth_append list_update_append1)

lemma Init_result:
  assumes "mutable_table env exports"
  shows "Init env exports =
     Inr (exports,
          env\<lparr>heap := (heap env)
                 [exports := (heap env ! exports)
                    \<lparr>props := AList.update ''language'' (data_prop (Ref (length (heap env))))
                               (AList.update ''name'' (data_prop (Str ''allium''))
                                  (props (heap env ! exports)))\<rparr>]
               @ [function_object ''language'' Language_lambda]\<rparr>)"
proof -
  let ?ob = "heap env ! exports"
  from assms have v: "exports < length (heap env)"
    and n: "can_set ?ob ''name''" and l: "can_set ?ob ''language''"
    by (simp_all add: mutable_table_def)
  have "can_set (put ?ob ''name'' (Str ''allium'')) ''language''"
    using l by (simp add: can_set_put_other)
  then have "put (put ?ob ''name'' (Str ''allium'')) ''language'' (Ref (length (heap env))) =
      ?ob\<lparr>props := AList.update ''language'' (data_prop (Ref (length (heap env))))
                      (AList.update ''name'' (data_prop (Str ''allium'')) (props ?ob))\<rparr>"
    by (simp add: put_can_set [OF n] put_can_set)
  then show ?thesis
    by (simp add: Init_steps [OF v])
qed

lemma Init_invalid:
  "\<not> exports < length (heap env) \<Longrightarrow> Init env exports = Inl Object_expected"
  by (simp add: Init_def Object_Set_def)

text \<open>
  On a table that is not mutable the stores of \<open>Init\<close> report success and change
  nothing they cannot change: an external table stays without properties, and a
  function table gains \<open>language\<close> and keeps its own name.
\<close>

lemma Init_on_external_table:
  "Init \<lparr>heap = [external_object 7], native = ()\<rparr> 0 =
     Inr (0, \<lparr>heap = [external_object 7, function_object ''language'' Language_lambda],
              native = ()\<rparr>)"
  by (simp add: Init_steps put_def external_object_def)

lemma Init_on_function_table:
  "Init \<lparr>heap = [function_object ''language'' Language_lambda], native = ()\<rparr> 0 =
     Inr (0, \<lparr>heap = [(function_object ''language'' Language_lambda)
                        \<lparr>props := [(''length'', read_only_prop (Number 0)),
                                   (''name'', read_only_prop (Str ''language'')),
                                   (''language'', data_prop (Ref 1))]\<rparr>,
                       function_object ''language'' Language_lambda],
              native = ()\<rparr>)"
  by (simp add: Init_steps put_def function_object_def read_only_prop_def)

lemma Function_Call_lambda:
  assumes "r < length (heap env)" and "kind (heap env ! r) = Function nm Language_lambda"
  shows "Function_Call tsa env (Ref r) info = Inr (language tsa env info)"
  using assms by (simp add: Function_Call_def)

lemma accessor_calls_Suc:
  "fst (accessor_calls tsa n (Suc k)) = fst (tsa n) # fst (accessor_calls tsa (snd (tsa n)) k)"
  "snd (accessor_calls tsa n (Suc k)) = snd (accessor_calls tsa (snd (tsa n)) k)"
  by (simp_all split: prod.split)

lemma upt_shift: "[l ..< Suc (l + k)] = l # [Suc l ..< Suc (l + k)]"
  by (simp add: upt_conv_Cons del: upt_Suc)

lemma call_each_result:
  assumes "r < length (heap env)" and "kind (heap env ! r) = Function nm Language_lambda"
  shows "call_each tsa env (Ref r) infos =
     Inr (map Ref [length (heap env) ..< length (heap env) + length infos],
          env\<lparr>heap := heap env @
                  map external_object
                    (fst (accessor_calls tsa (native env) (length infos))),
              native := snd (accessor_calls tsa (native env) (length infos))\<rparr>)"
  using assms
proof (induction infos arbitrary: env)
  case Nil
  then show ?case by simp
next
  case (Cons info infos)
  obtain h env1 where l: "language tsa env info = (h, env1)"
    by (cases "language tsa env info")
  have h: "h = Ref (length (heap env))"
    and heap1: "heap env1 =
      heap env @ [external_object (fst (tsa (native env)))]"
    and native1: "native env1 = snd (tsa (native env))"
    and env1: "env1 = env\<lparr>heap := heap env1, native := native env1\<rparr>"
    using l by (auto simp: language_result)
  have call: "Function_Call tsa env (Ref r) info = Inr (h, env1)"
    using Cons.prems l by (simp add: Function_Call_lambda)
  have r1: "r < length (heap env1)"
    using Cons.prems(1) by (simp add: heap1)
  have k1: "kind (heap env1 ! r) = Function nm Language_lambda"
    using Cons.prems by (simp add: heap1 nth_append)
  have "call_each tsa env (Ref r) (info # infos) =
      Inr (h # map Ref [length (heap env1) ..< length (heap env1) + length infos],
           env1\<lparr>heap := heap env1 @
                     map external_object
                       (fst (accessor_calls tsa (native env1) (length infos))),
                 native := snd (accessor_calls tsa (native env1) (length infos))\<rparr>)"
    by (simp add: call Cons.IH [OF r1 k1])
  also have "\<dots> =
      Inr (map Ref [length (heap env) ..< length (heap env) + length (info # infos)],
           env\<lparr>heap := heap env @
                    map external_object
                      (fst (accessor_calls tsa (native env) (length (info # infos)))),
                native := snd (accessor_calls tsa (native env) (length (info # infos)))\<rparr>)"
    by (subst env1)
      (simp add: h heap1 native1 accessor_calls_Suc upt_shift
        del: accessor_calls.simps upt_Suc)
  finally show ?case .
qed

lemma accessor_calls_stable:
  assumes "\<And>n. fst (tsa n) = a"
  shows "fst (accessor_calls tsa n k) = replicate k a"
proof (induction k arbitrary: n)
  case 0
  show ?case by simp
next
  case (Suc k)
  have "fst (tsa n) = a" by (rule assms)
  with Suc show ?case by (simp add: accessor_calls_Suc del: accessor_calls.simps(2))
qed

lemma accessor_calls_read_only:
  assumes "\<And>n. snd (tsa n) = n"
  shows "snd (accessor_calls tsa n k) = n"
proof (induction k arbitrary: n)
  case 0
  show ?case by simp
next
  case (Suc k)
  have "snd (tsa n) = n" by (rule assms)
  with Suc show ?case by (simp add: accessor_calls_Suc del: accessor_calls.simps(2))
qed

lemma Init_valid_cases:
  assumes "mutable_table env exports"
  obtains env1 where "Init env exports = Inr (exports, env1)"
    and "native env1 = native env"
    and "heap env1 =
      (heap env)
        [exports := (heap env ! exports)
           \<lparr>props := AList.update ''language'' (data_prop (Ref (length (heap env))))
                      (AList.update ''name'' (data_prop (Str ''allium''))
                         (props (heap env ! exports)))\<rparr>]
      @ [function_object ''language'' Language_lambda]"
proof (rule that)
  show "Init env exports = Inr (exports, snd (projr (Init env exports)))"
    by (simp add: Init_result [OF assms])
qed (simp_all add: Init_result [OF assms])

lemma Init_keeps_mutable:
  assumes "mutable_table env exports" and "Init env exports = Inr (exports, env1)"
  shows "mutable_table env1 exports"
proof -
  from assms(1) have v: "exports < length (heap env)"
    and k: "kind (heap env ! exports) = Plain"
    by (simp_all add: mutable_table_def)
  from assms(2) have h: "heap env1 =
      (heap env)
        [exports := (heap env ! exports)
           \<lparr>props := AList.update ''language'' (data_prop (Ref (length (heap env))))
                      (AList.update ''name'' (data_prop (Str ''allium''))
                         (props (heap env ! exports)))\<rparr>]
      @ [function_object ''language'' Language_lambda]"
    by (auto simp: Init_result [OF assms(1)])
  from v k show ?thesis
    by (simp add: mutable_table_def h nth_append can_set_def update_conv)
qed

lemma Object_Get_grown:
  assumes "obj < length (heap env)" and "heap env' = heap env @ ys"
  shows "Object_Get env' obj key = Object_Get env obj key"
  using assms by (simp add: Object_Get_def nth_append)

lemma own_keys_twice:
  "map fst (AList.update ''language'' v (AList.update ''name'' w al)) =
     map fst al @ filter (\<lambda>k. k \<notin> set (map fst al)) [''name'', ''language'']"
  by (simp add: update_keys)

lemma Init_valid_facts:
  assumes "mutable_table env exports"
  obtains env1 where "Init env exports = Inr (exports, env1)"
    and "native env1 = native env"
    and "length (heap env1) = Suc (length (heap env))"
    and "Object_Get env1 exports ''language'' = Inr (Ref (length (heap env)))"
    and "Object_Get env1 exports ''name'' = Inr (Str ''allium'')"
    and "kind (heap env1 ! length (heap env)) = Function ''language'' Language_lambda"
proof -
  from assms have v: "exports < length (heap env)"
    by (rule mutable_table_valid)
  from assms obtain env1 where i: "Init env exports = Inr (exports, env1)"
    and n: "native env1 = native env"
    and h: "heap env1 =
      (heap env)
        [exports := (heap env ! exports)
           \<lparr>props := AList.update ''language'' (data_prop (Ref (length (heap env))))
                      (AList.update ''name'' (data_prop (Str ''allium''))
                         (props (heap env ! exports)))\<rparr>]
      @ [function_object ''language'' Language_lambda]"
    by (rule Init_valid_cases)
  have len: "length (heap env1) = Suc (length (heap env))"
    by (simp add: h)
  have t: "props (heap env1 ! exports) =
      AList.update ''language'' (data_prop (Ref (length (heap env))))
        (AList.update ''name'' (data_prop (Str ''allium'')) (props (heap env ! exports)))"
    using v by (simp add: h nth_append)
  have lg: "Object_Get env1 exports ''language'' = Inr (Ref (length (heap env)))"
    using v by (simp add: Object_Get_def len t update_conv)
  have nm: "Object_Get env1 exports ''name'' = Inr (Str ''allium'')"
    using v by (simp add: Object_Get_def len t update_conv)
  have k: "kind (heap env1 ! length (heap env)) = Function ''language'' Language_lambda"
    by (simp add: h nth_append)
  from i n len lg nm k show thesis by (rule that)
qed

lemma External_Data_added:
  assumes "heap env2 = xs @ replicate k (external_object a)"
  shows "map (External_Data env2) (map Ref [length xs ..< length xs + k]) =
     replicate k (Some a)"
proof -
  have "External_Data env2 (Ref i) = Some a" if "i \<in> set [length xs ..< length xs + k]" for i
  proof -
    from that have "length xs \<le> i" and "i - length xs < k" and "i < length xs + k"
      by auto
    then show ?thesis
      by (simp add: External_Data_def assms nth_append)
  qed
  then have "map (External_Data env2 \<circ> Ref) [length xs ..< length xs + k] =
      map (\<lambda>_. Some a) [length xs ..< length xs + k]"
    by (intro map_cong) simp_all
  then show ?thesis by (simp add: map_replicate_const)
qed

lemma update_twice_keys:
  "map fst (AList.update ''language'' v' (AList.update ''name'' w'
      (AList.update ''language'' v (AList.update ''name'' w al)))) =
   map fst (AList.update ''language'' v (AList.update ''name'' w al))"
  by (simp add: update_keys dom_update)

lemma update_twice_distinct:
  assumes "distinct (map fst al)"
  shows "distinct (map fst (AList.update ''language'' v' (AList.update ''name'' w'
      (AList.update ''language'' v (AList.update ''name'' w al)))))"
  using assms by (simp add: distinct_update)

subsection \<open>The language factory\<close>

text \<open>
  C6.  Every call of the \<open>language\<close> lambda takes the address the accessor returns and
  puts exactly that address into a new external object: the handle returned is the next
  free reference, which named no object before the call; reading the handle back gives
  the accessor's address; the heap is the old heap with this one object added; and the
  native state is the one the accessor left, so the lambda itself neither reads nor
  copies what the address points to.
\<close>

theorem language_wraps_accessor_address:
  "fst (language tsa env info) = Ref (length (heap env)) \<and>
   External_Data env (fst (language tsa env info)) = None \<and>
   External_Data (snd (language tsa env info)) (fst (language tsa env info))
     = Some (fst (tsa (native env))) \<and>
   heap (snd (language tsa env info))
     = heap env @ [external_object (fst (tsa (native env)))] \<and>
   native (snd (language tsa env info)) = snd (tsa (native env))"
  by (simp add: language_result External_Data_def)

text \<open>
  C10.  The \<open>language\<close> lambda does not look at its arguments.  Run in the same state
  with any two argument lists, the empty one included, it returns the same handle and
  leaves the same state; the handle it returns for any argument list wraps the address
  the accessor returns in that state; and a call of any function value through the
  host runtime has the same outcome for any two argument lists.
\<close>

theorem language_ignores_arguments:
  "language tsa env info = language tsa env info' \<and>
   language tsa env info = language tsa env [] \<and>
   External_Data (snd (language tsa env info)) (fst (language tsa env info))
     = Some (fst (tsa (native env))) \<and>
   External_Data (snd (language tsa env info')) (fst (language tsa env info'))
     = Some (fst (tsa (native env))) \<and>
   Function_Call tsa env f info = Function_Call tsa env f info'"
  by (simp add: language_result External_Data_def Function_Call_def
      split: jsval.split kind.split callback.split)

text \<open>
  C1.  Let the accessor return the address \<open>a\<close> in every native state, as its contract
  says.  Then after \<open>Init\<close> on a mutable export table, any number of successive calls of the
  exported \<open>language\<close> function, whatever their arguments, all succeed; they return as
  many handles as there were calls, the handles are pairwise different objects, and
  every one of them wraps \<open>a\<close>.
\<close>

theorem language_handles_share_descriptor:
  assumes "\<And>n. fst (tsa n) = a" and "mutable_table env exports"
  shows "\<exists>env1 f hs env2.
     Init env exports = Inr (exports, env1) \<and>
     Object_Get env1 exports ''language'' = Inr f \<and>
     call_each tsa env1 f infos = Inr (hs, env2) \<and>
     length hs = length infos \<and>
     distinct hs \<and>
     map (External_Data env2) hs = replicate (length infos) (Some a)"
proof -
  from assms(2) obtain env1 where i: "Init env exports = Inr (exports, env1)"
    and "native env1 = native env"
    and len: "length (heap env1) = Suc (length (heap env))"
    and lg: "Object_Get env1 exports ''language'' = Inr (Ref (length (heap env)))"
    and "Object_Get env1 exports ''name'' = Inr (Str ''allium'')"
    and k: "kind (heap env1 ! length (heap env)) = Function ''language'' Language_lambda"
    by (rule Init_valid_facts)
  from len have r: "length (heap env) < length (heap env1)"
    by simp
  note calls = call_each_result [OF r k, of tsa infos]
  let ?hs = "map Ref [length (heap env1) ..< length (heap env1) + length infos]"
  let ?env2 = "env1\<lparr>heap := heap env1 @
                    map external_object
                      (fst (accessor_calls tsa (native env1) (length infos))),
                native := snd (accessor_calls tsa (native env1) (length infos))\<rparr>"
  have "fst (accessor_calls tsa (native env1) (length infos)) = replicate (length infos) a"
    using assms(1) by (rule accessor_calls_stable)
  then have h2: "heap ?env2 =
      heap env1 @ replicate (length infos) (external_object a)"
    by simp
  have data: "map (External_Data ?env2) ?hs = replicate (length infos) (Some a)"
    using h2 by (rule External_Data_added)
  have d: "distinct ?hs"
    by (simp add: distinct_map inj_on_def)
  have l: "length ?hs = length infos"
    by simp
  from i lg calls l d data show ?thesis
    by blast
qed

theorem language_handles_share_descriptor_witness:
  "\<exists>env1 f hs env2.
     Init \<lparr>heap = [empty_table], native = ()\<rparr> 0 = Inr (0, env1) \<and>
     Object_Get env1 0 ''language'' = Inr f \<and>
     call_each (\<lambda>n. (4096, n)) env1 f [[], [Str ''x''], []] = Inr (hs, env2) \<and>
     length hs = 3 \<and>
     distinct hs \<and>
     map (External_Data env2) hs = [Some 4096, Some 4096, Some 4096]"
proof -
  let ?E = "\<lparr>heap = [empty_table], native = ()\<rparr>"
  have s: "fst ((\<lambda>n. (4096, n)) n) = 4096" for n :: unit
    by simp
  have v: "mutable_table ?E 0"
    by (simp add: mutable_table_def can_set_def empty_table_def)
  from language_handles_share_descriptor [of "\<lambda>n. (4096, n)" 4096, OF s v,
      of "[[], [Str ''x''], []]"]
  show ?thesis
    by (simp add: numeral_3_eq_3)
qed

subsection \<open>The export table after Init\<close>

text \<open>
  C2 (amended).  \<open>Init\<close> on a mutable export table succeeds and returns the handle it
  was given.  The keys
  of the table afterwards are the keys it had before, in their order, followed by those
  of \<open>name\<close> and \<open>language\<close> that were missing: no other key is added and none is
  removed, and a table that was empty holds exactly \<open>name\<close> and \<open>language\<close>.
  \<open>name\<close> reads as the string \<open>allium\<close>, \<open>language\<close> reads as a reference to a
  new function object bound to the lambda, and every other key reads as before.
\<close>

theorem Init_adds_name_and_language:
  assumes "mutable_table env exports"
  shows "\<exists>env'. Init env exports = Inr (exports, env') \<and>
     own_keys env' exports =
       own_keys env exports @
       filter (\<lambda>k. k \<notin> set (own_keys env exports)) [''name'', ''language''] \<and>
     (own_keys env exports = [] \<longrightarrow> own_keys env' exports = [''name'', ''language'']) \<and>
     Object_Get env' exports ''name'' = Inr (Str ''allium'') \<and>
     Object_Get env' exports ''language'' = Inr (Ref (length (heap env))) \<and>
     length (heap env) < length (heap env') \<and>
     heap env' ! length (heap env) =
       function_object ''language'' Language_lambda \<and>
     (\<forall>k. k \<noteq> ''name'' \<and> k \<noteq> ''language'' \<longrightarrow>
        Object_Get env' exports k = Object_Get env exports k)"
proof -
  from assms have v: "exports < length (heap env)"
    by (rule mutable_table_valid)
  from assms obtain env1 where i: "Init env exports = Inr (exports, env1)"
    and h: "heap env1 =
      (heap env)
        [exports := (heap env ! exports)
           \<lparr>props := AList.update ''language'' (data_prop (Ref (length (heap env))))
                      (AList.update ''name'' (data_prop (Str ''allium''))
                         (props (heap env ! exports)))\<rparr>]
      @ [function_object ''language'' Language_lambda]"
    by (rule Init_valid_cases)
  have t: "heap env1 ! exports = (heap env ! exports)
           \<lparr>props := AList.update ''language'' (data_prop (Ref (length (heap env))))
                      (AList.update ''name'' (data_prop (Str ''allium''))
                         (props (heap env ! exports)))\<rparr>"
    using v by (simp add: h nth_append)
  have len: "length (heap env1) = Suc (length (heap env))"
    by (simp add: h)
  have keys: "own_keys env1 exports =
       own_keys env exports @
       filter (\<lambda>k. k \<notin> set (own_keys env exports)) [''name'', ''language'']"
    unfolding own_keys_def t by (simp add: own_keys_twice del: filter.simps)
  have fresh: "own_keys env exports = [] \<longrightarrow> own_keys env1 exports = [''name'', ''language'']"
    by (simp add: keys)
  have nm: "Object_Get env1 exports ''name'' = Inr (Str ''allium'')"
    using v by (simp add: Object_Get_def len t update_conv)
  have lg: "Object_Get env1 exports ''language'' = Inr (Ref (length (heap env)))"
    using v by (simp add: Object_Get_def len t update_conv)
  have fn: "heap env1 ! length (heap env) =
       function_object ''language'' Language_lambda"
    by (simp add: h nth_append)
  have others: "\<forall>k. k \<noteq> ''name'' \<and> k \<noteq> ''language'' \<longrightarrow>
        Object_Get env1 exports k = Object_Get env exports k"
    using v by (simp add: Object_Get_def len t update_conv)
  from i keys fresh nm lg len fn others show ?thesis
    by (intro exI [of _ env1]) simp
qed

text \<open>
  On a mutable table that already holds the key \<open>version\<close>, \<open>Init\<close> leaves three
  keys, so the table does not hold exactly \<open>name\<close> and \<open>language\<close>.
\<close>

theorem Init_exact_keys_counterexample:
  "Init \<lparr>heap = [\<lparr>kind = Plain, extensible = True,
                    props = [(''version'', data_prop (Str ''1.0''))]\<rparr>],
         native = ()\<rparr> 0 =
     Inr (0, \<lparr>heap = [\<lparr>kind = Plain, extensible = True,
                         props = [(''version'', data_prop (Str ''1.0'')),
                                  (''name'', data_prop (Str ''allium'')),
                                  (''language'', data_prop (Ref 1))]\<rparr>,
                       function_object ''language'' Language_lambda],
              native = ()\<rparr>) \<and>
   mutable_table \<lparr>heap = [\<lparr>kind = Plain, extensible = True,
                            props = [(''version'', data_prop (Str ''1.0''))]\<rparr>],
                  native = ()\<rparr> 0 \<and>
   own_keys \<lparr>heap = [\<lparr>kind = Plain, extensible = True,
                       props = [(''version'', data_prop (Str ''1.0'')),
                                (''name'', data_prop (Str ''allium'')),
                                (''language'', data_prop (Ref 1))]\<rparr>,
                     function_object ''language'' Language_lambda],
            native = ()\<rparr> 0 = [''version'', ''name'', ''language''] \<and>
   \<not> set [''version'', ''name'', ''language''] \<subseteq> {''name'', ''language''}"
  by (simp add: Init_steps put_def own_keys_def mutable_table_def can_set_def)

theorem Init_adds_name_and_language_witness:
  "\<exists>env'. Init \<lparr>heap = [empty_table], native = ()\<rparr> 0 = Inr (0, env') \<and>
     own_keys env' 0 = [''name'', ''language''] \<and>
     Object_Get env' 0 ''name'' = Inr (Str ''allium'') \<and>
     Object_Get env' 0 ''language'' = Inr (Ref 1) \<and>
     heap env' ! 1 = function_object ''language'' Language_lambda"
proof -
  let ?E = "\<lparr>heap = [empty_table], native = ()\<rparr>"
  have "mutable_table ?E 0"
    by (simp add: mutable_table_def can_set_def empty_table_def)
  from Init_adds_name_and_language [OF this]
  obtain env' where "Init ?E 0 = Inr (0, env')"
    and "own_keys ?E 0 = [] \<longrightarrow> own_keys env' 0 = [''name'', ''language'']"
    and "Object_Get env' 0 ''name'' = Inr (Str ''allium'')"
    and "Object_Get env' 0 ''language'' = Inr (Ref (length (heap ?E)))"
    and "heap env' ! length (heap ?E) =
           function_object ''language'' Language_lambda"
    by blast
  then show ?thesis
    by (intro exI [of _ env']) (simp add: own_keys_def)
qed

text \<open>
  C5.  \<open>Init\<close> on a handle to any object of the heap returns that same handle.  The
  object it refers to keeps its kind and its extensibility, and every key other than
  \<open>name\<close> and \<open>language\<close> reads as before; every other object that existed is
  unchanged, the native state is unchanged, and the heap has grown by exactly one
  object, the new function object.  On a mutable export table the properties afterwards
  are the old ones with \<open>name\<close> and then \<open>language\<close> stored.
\<close>

theorem Init_returns_its_table:
  assumes "exports < length (heap env)"
  shows "\<exists>env'.
     Init env exports = Inr (exports, env') \<and>
     native env' = native env \<and>
     length (heap env') = Suc (length (heap env)) \<and>
     heap env' ! length (heap env) = function_object ''language'' Language_lambda \<and>
     (\<forall>r. r < length (heap env) \<and> r \<noteq> exports \<longrightarrow> heap env' ! r = heap env ! r) \<and>
     kind (heap env' ! exports) = kind (heap env ! exports) \<and>
     extensible (heap env' ! exports) = extensible (heap env ! exports) \<and>
     (\<forall>k. k \<noteq> ''name'' \<and> k \<noteq> ''language'' \<longrightarrow>
        Object_Get env' exports k = Object_Get env exports k) \<and>
     (mutable_table env exports \<longrightarrow>
        props (heap env' ! exports) =
          AList.update ''language'' (data_prop (Ref (length (heap env))))
            (AList.update ''name'' (data_prop (Str ''allium''))
               (props (heap env ! exports))))"
proof -
  let ?ob = "put (put (heap env ! exports) ''name'' (Str ''allium''))
               ''language'' (Ref (length (heap env)))"
  let ?env1 = "env\<lparr>heap := (heap env)[exports := ?ob]
                 @ [function_object ''language'' Language_lambda]\<rparr>"
  have i: "Init env exports = Inr (exports, ?env1)"
    using assms by (rule Init_steps)
  have n: "native ?env1 = native env"
    by simp
  have len: "length (heap ?env1) = Suc (length (heap env))"
    by simp
  have fn: "heap ?env1 ! length (heap env) = function_object ''language'' Language_lambda"
    by (simp add: nth_append)
  have frame: "\<forall>r. r < length (heap env) \<and> r \<noteq> exports \<longrightarrow> heap ?env1 ! r = heap env ! r"
    by (simp add: nth_append)
  have t: "heap ?env1 ! exports = ?ob"
    using assms by (simp add: nth_append)
  have kd: "kind (heap ?env1 ! exports) = kind (heap env ! exports)"
    by (simp only: t put_frame)
  have ex: "extensible (heap ?env1 ! exports) = extensible (heap env ! exports)"
    by (simp only: t put_frame)
  have others: "\<forall>k. k \<noteq> ''name'' \<and> k \<noteq> ''language'' \<longrightarrow>
        Object_Get ?env1 exports k = Object_Get env exports k"
    using assms by (simp add: Object_Get_def nth_append put_frame)
  have pr: "mutable_table env exports \<longrightarrow>
        props (heap ?env1 ! exports) =
          AList.update ''language'' (data_prop (Ref (length (heap env))))
            (AList.update ''name'' (data_prop (Str ''allium''))
               (props (heap env ! exports)))"
  proof
    assume m: "mutable_table env exports"
    with i have "?env1 = env\<lparr>heap := (heap env)
                 [exports := (heap env ! exports)
                    \<lparr>props := AList.update ''language'' (data_prop (Ref (length (heap env))))
                               (AList.update ''name'' (data_prop (Str ''allium''))
                                  (props (heap env ! exports)))\<rparr>]
               @ [function_object ''language'' Language_lambda]\<rparr>"
      by (simp only: Init_result [OF m] sum.inject prod.inject)
    then have "heap ?env1 ! exports = (heap env ! exports)
                    \<lparr>props := AList.update ''language'' (data_prop (Ref (length (heap env))))
                               (AList.update ''name'' (data_prop (Str ''allium''))
                                  (props (heap env ! exports)))\<rparr>"
      using assms by (simp add: nth_append)
    then show "props (heap ?env1 ! exports) =
          AList.update ''language'' (data_prop (Ref (length (heap env))))
            (AList.update ''name'' (data_prop (Str ''allium''))
               (props (heap env ! exports)))"
      by simp
  qed
  from i n len fn frame kd ex others pr show ?thesis
    by (intro exI [of _ ?env1] conjI)
qed

theorem Init_returns_its_table_witness:
  "\<exists>env'.
     Init \<lparr>heap = [external_object 7,
                   \<lparr>kind = Plain, extensible = True,
                      props = [(''version'', data_prop (Str ''1.0''))]\<rparr>],
           native = ()\<rparr> 1 = Inr (1, env') \<and>
     native env' = () \<and>
     length (heap env') = 3 \<and>
     heap env' ! 0 = external_object 7 \<and>
     heap env' ! 1 =
       \<lparr>kind = Plain, extensible = True,
          props = [(''version'', data_prop (Str ''1.0'')),
                   (''name'', data_prop (Str ''allium'')),
                   (''language'', data_prop (Ref 2))]\<rparr> \<and>
     heap env' ! 2 = function_object ''language'' Language_lambda"
proof -
  let ?E = "\<lparr>heap = [external_object 7,
                     \<lparr>kind = Plain, extensible = True,
                        props = [(''version'', data_prop (Str ''1.0''))]\<rparr>],
             native = ()\<rparr>"
  have v: "1 < length (heap ?E)"
    by simp
  have m: "mutable_table ?E 1"
    by (simp add: mutable_table_def can_set_def)
  from Init_returns_its_table [OF v]
  obtain env' where i: "Init ?E 1 = Inr (1, env')"
    and l: "length (heap env') = Suc (length (heap ?E))"
    and f: "heap env' ! length (heap ?E) = function_object ''language'' Language_lambda"
    and o: "\<forall>r. r < length (heap ?E) \<and> r \<noteq> 1 \<longrightarrow> heap env' ! r = heap ?E ! r"
    and k: "kind (heap env' ! 1) = kind (heap ?E ! 1)"
    and e: "extensible (heap env' ! 1) = extensible (heap ?E ! 1)"
    and p: "mutable_table ?E 1 \<longrightarrow> props (heap env' ! 1) =
       AList.update ''language'' (data_prop (Ref (length (heap ?E))))
         (AList.update ''name'' (data_prop (Str ''allium'')) (props (heap ?E ! 1)))"
    by blast
  from o have z: "heap env' ! 0 = heap ?E ! 0"
    by simp
  from k have k': "kind (heap env' ! 1) = Plain"
    by simp
  from e have e': "extensible (heap env' ! 1)"
    by simp
  from p m have p': "props (heap env' ! 1) =
      [(''version'', data_prop (Str ''1.0'')),
       (''name'', data_prop (Str ''allium'')),
       (''language'', data_prop (Ref 2))]"
    by simp
  from i l f z k' e' p' show ?thesis
    by (intro exI [of _ env']) (simp add: numeral_2_eq_2 numeral_3_eq_3)
qed

text \<open>
  C3.  \<open>Init\<close> run twice on the same mutable export table succeeds both times and
  returns the handle both times.  After the second run the table has the same keys in the same
  order as after the first, without duplicates when it had none at the start; every key
  but \<open>language\<close>, \<open>name\<close> among them, reads the same value; \<open>language\<close> refers in
  both states to a function object with the same content, named \<open>language\<close> and bound
  to the lambda; the native state is the same; and a call of either function with the
  same accessor succeeds, gives a handle to the same address and leaves the same native
  state.
\<close>

theorem Init_twice_equivalent:
  assumes "mutable_table env exports"
  shows "\<exists>env1 env2 f1 f2.
     Init env exports = Inr (exports, env1) \<and>
     Init env1 exports = Inr (exports, env2) \<and>
     own_keys env2 exports = own_keys env1 exports \<and>
     (distinct (own_keys env exports) \<longrightarrow> distinct (own_keys env2 exports)) \<and>
     (\<forall>k. k \<noteq> ''language'' \<longrightarrow> Object_Get env2 exports k = Object_Get env1 exports k) \<and>
     Object_Get env2 exports ''name'' = Inr (Str ''allium'') \<and>
     Object_Get env1 exports ''language'' = Inr (Ref f1) \<and>
     Object_Get env2 exports ''language'' = Inr (Ref f2) \<and>
     f1 < length (heap env1) \<and> f2 < length (heap env2) \<and>
     heap env2 ! f2 = heap env1 ! f1 \<and>
     kind (heap env2 ! f2) = Function ''language'' Language_lambda \<and>
     native env2 = native env1 \<and>
     (\<forall>tsa info. \<exists>h1 e1 h2 e2.
        Function_Call tsa env1 (Ref f1) info = Inr (h1, e1) \<and>
        Function_Call tsa env2 (Ref f2) info = Inr (h2, e2) \<and>
        External_Data e1 h1 = External_Data e2 h2 \<and>
        native e1 = native e2)"
proof -
  from assms have v: "exports < length (heap env)"
    by (rule mutable_table_valid)
  let ?fn = "function_object ''language'' Language_lambda"
  from assms obtain env1 where i1: "Init env exports = Inr (exports, env1)"
    and n1: "native env1 = native env"
    and h1: "heap env1 =
      (heap env)
        [exports := (heap env ! exports)
           \<lparr>props := AList.update ''language'' (data_prop (Ref (length (heap env))))
                      (AList.update ''name'' (data_prop (Str ''allium''))
                         (props (heap env ! exports)))\<rparr>]
      @ [?fn]"
    by (rule Init_valid_cases)
  have len1: "length (heap env1) = Suc (length (heap env))"
    by (simp add: h1)
  with v have v1: "exports < length (heap env1)"
    by simp
  from assms i1 have "mutable_table env1 exports"
    by (rule Init_keeps_mutable)
  then obtain env2 where i2: "Init env1 exports = Inr (exports, env2)"
    and n2: "native env2 = native env1"
    and h2: "heap env2 =
      (heap env1)
        [exports := (heap env1 ! exports)
           \<lparr>props := AList.update ''language'' (data_prop (Ref (length (heap env1))))
                      (AList.update ''name'' (data_prop (Str ''allium''))
                         (props (heap env1 ! exports)))\<rparr>]
      @ [?fn]"
    by (rule Init_valid_cases)
  have len2: "length (heap env2) = Suc (length (heap env1))"
    by (simp add: h2)
  have p1: "props (heap env1 ! exports) =
      AList.update ''language'' (data_prop (Ref (length (heap env))))
        (AList.update ''name'' (data_prop (Str ''allium'')) (props (heap env ! exports)))"
    using v by (simp add: h1 nth_append)
  have p2: "props (heap env2 ! exports) =
      AList.update ''language'' (data_prop (Ref (length (heap env1))))
        (AList.update ''name'' (data_prop (Str ''allium'')) (props (heap env1 ! exports)))"
    using v1 by (simp add: h2 nth_append)
  have keys: "own_keys env2 exports = own_keys env1 exports"
    unfolding own_keys_def p2 unfolding p1 by (rule update_twice_keys)
  have dist: "distinct (own_keys env exports) \<longrightarrow> distinct (own_keys env2 exports)"
    unfolding own_keys_def p2 unfolding p1 by (simp add: update_twice_distinct)
  have same: "\<forall>k. k \<noteq> ''language'' \<longrightarrow>
      Object_Get env2 exports k = Object_Get env1 exports k"
    using v1 by (simp add: Object_Get_def len2 p2 p1 update_conv)
  have nm: "Object_Get env2 exports ''name'' = Inr (Str ''allium'')"
    using v1 by (simp add: Object_Get_def len2 p2 update_conv)
  have l1: "Object_Get env1 exports ''language'' = Inr (Ref (length (heap env)))"
    using v1 by (simp add: Object_Get_def p1 update_conv)
  have l2: "Object_Get env2 exports ''language'' = Inr (Ref (length (heap env1)))"
    using v1 by (simp add: Object_Get_def len2 p2 update_conv)
  have f1: "heap env1 ! length (heap env) = ?fn"
    by (simp add: h1 nth_append)
  have f2: "heap env2 ! length (heap env1) = ?fn"
    by (simp add: h2 nth_append)
  have r1: "length (heap env) < length (heap env1)"
    by (simp add: len1)
  have r2: "length (heap env1) < length (heap env2)"
    by (simp add: len2)
  have calls: "\<exists>h1 e1 h2 e2.
        Function_Call tsa env1 (Ref (length (heap env))) info = Inr (h1, e1) \<and>
        Function_Call tsa env2 (Ref (length (heap env1))) info = Inr (h2, e2) \<and>
        External_Data e1 h1 = External_Data e2 h2 \<and>
        native e1 = native e2" for tsa info
  proof -
    have c1: "Function_Call tsa env1 (Ref (length (heap env))) info =
        Inr (language tsa env1 info)"
      using r1 by (rule Function_Call_lambda) (simp add: f1)
    have c2: "Function_Call tsa env2 (Ref (length (heap env1))) info =
        Inr (language tsa env2 info)"
      using r2 by (rule Function_Call_lambda) (simp add: f2)
    have d: "External_Data (snd (language tsa env1 info)) (fst (language tsa env1 info)) =
        External_Data (snd (language tsa env2 info)) (fst (language tsa env2 info))"
      by (simp add: language_result External_Data_def n2)
    have n: "native (snd (language tsa env1 info)) = native (snd (language tsa env2 info))"
      by (simp add: language_result n2)
    show ?thesis
      unfolding c1 c2 using d n
      by (metis prod.collapse)
  qed
  show ?thesis
    using i1 i2 keys dist same nm l1 l2 r1 r2 f1 f2 n2 calls
    by (intro exI [of _ env1] exI [of _ env2] exI [of _ "length (heap env)"]
        exI [of _ "length (heap env1)"]) simp
qed

theorem Init_twice_equivalent_witness:
  "\<exists>env1 env2 f1 f2.
     Init \<lparr>heap = [empty_table], native = ()\<rparr> 0 = Inr (0, env1) \<and>
     Init env1 0 = Inr (0, env2) \<and>
     own_keys env2 0 = own_keys env1 0 \<and>
     distinct (own_keys env2 0) \<and>
     Object_Get env2 0 ''name'' = Inr (Str ''allium'') \<and>
     Object_Get env1 0 ''language'' = Inr (Ref f1) \<and>
     Object_Get env2 0 ''language'' = Inr (Ref f2) \<and>
     heap env2 ! f2 = heap env1 ! f1 \<and>
     kind (heap env2 ! f2) = Function ''language'' Language_lambda"
proof -
  let ?E = "\<lparr>heap = [empty_table], native = ()\<rparr>"
  have "mutable_table ?E 0"
    by (simp add: mutable_table_def can_set_def empty_table_def)
  from Init_twice_equivalent [OF this]
  obtain env1 env2 f1 f2 where "Init ?E 0 = Inr (0, env1)"
    and "Init env1 0 = Inr (0, env2)"
    and "own_keys env2 0 = own_keys env1 0"
    and "distinct (own_keys ?E 0) \<longrightarrow> distinct (own_keys env2 0)"
    and "Object_Get env2 0 ''name'' = Inr (Str ''allium'')"
    and "Object_Get env1 0 ''language'' = Inr (Ref f1)"
    and "Object_Get env2 0 ''language'' = Inr (Ref f2)"
    and "heap env2 ! f2 = heap env1 ! f1"
    and "kind (heap env2 ! f2) = Function ''language'' Language_lambda"
    by blast
  then show ?thesis
    by (intro exI [of _ env1] exI [of _ env2] exI [of _ f1] exI [of _ f2])
      (simp add: own_keys_def)
qed

text \<open>
  C4.  After \<open>Init\<close> on a mutable export table, reading \<open>name\<close> succeeds and gives the
  string \<open>allium\<close>, both at once and after any number of calls of the exported
  \<open>language\<close> function with any arguments and any accessor; all those calls succeed.
  A read does not change the state, so reads placed between the calls see the states
  after the shorter runs, which the statement covers as well.
\<close>

theorem name_is_constant:
  assumes "mutable_table env exports"
  shows "\<exists>env1 f hs env2.
     Init env exports = Inr (exports, env1) \<and>
     Object_Get env1 exports ''name'' = Inr (Str ''allium'') \<and>
     Object_Get env1 exports ''language'' = Inr f \<and>
     call_each tsa env1 f infos = Inr (hs, env2) \<and>
     length hs = length infos \<and>
     Object_Get env2 exports ''name'' = Inr (Str ''allium'')"
proof -
  from assms have v: "exports < length (heap env)"
    by (rule mutable_table_valid)
  from assms obtain env1 where i: "Init env exports = Inr (exports, env1)"
    and "native env1 = native env"
    and len: "length (heap env1) = Suc (length (heap env))"
    and lg: "Object_Get env1 exports ''language'' = Inr (Ref (length (heap env)))"
    and nm: "Object_Get env1 exports ''name'' = Inr (Str ''allium'')"
    and k: "kind (heap env1 ! length (heap env)) = Function ''language'' Language_lambda"
    by (rule Init_valid_facts)
  from len have r: "length (heap env) < length (heap env1)"
    by simp
  note calls = call_each_result [OF r k, of tsa infos]
  let ?hs = "map Ref [length (heap env1) ..< length (heap env1) + length infos]"
  let ?env2 = "env1\<lparr>heap := heap env1 @
                    map external_object
                      (fst (accessor_calls tsa (native env1) (length infos))),
                native := snd (accessor_calls tsa (native env1) (length infos))\<rparr>"
  from v len have e: "exports < length (heap env1)"
    by simp
  have "Object_Get ?env2 exports ''name'' = Object_Get env1 exports ''name''"
    using e by (rule Object_Get_grown) simp
  with nm have nm2: "Object_Get ?env2 exports ''name'' = Inr (Str ''allium'')"
    by simp
  have l: "length ?hs = length infos"
    by simp
  from i nm lg calls l nm2 show ?thesis
    by blast
qed

theorem name_is_constant_witness:
  "\<exists>env1 f hs env2.
     Init \<lparr>heap = [empty_table], native = ()\<rparr> 0 = Inr (0, env1) \<and>
     Object_Get env1 0 ''name'' = Inr (Str ''allium'') \<and>
     Object_Get env1 0 ''language'' = Inr f \<and>
     call_each (\<lambda>n. (4096, n)) env1 f [[], [Null]] = Inr (hs, env2) \<and>
     length hs = 2 \<and>
     Object_Get env2 0 ''name'' = Inr (Str ''allium'')"
proof -
  let ?E = "\<lparr>heap = [empty_table], native = ()\<rparr>"
  have v: "mutable_table ?E 0"
    by (simp add: mutable_table_def can_set_def empty_table_def)
  from name_is_constant [OF v, of "\<lambda>n. (4096, n)" "[[], [Null]]"]
  show ?thesis
    by (simp add: numeral_2_eq_2)
qed

subsection \<open>The native side\<close>

text \<open>
  C8.  \<open>Init\<close> on a mutable export table leaves the native state as it was.  A call of the
  \<open>language\<close> lambda leaves the native state the accessor left, and so does any run of
  calls of the exported function after \<open>Init\<close>: the native state at the end is the one
  the same number of bare accessor calls produces.  In particular, with an accessor that
  leaves the native state alone, the native state, the descriptor included, is after
  all of these operations what it was before them.
\<close>

theorem descriptor_not_written:
  assumes "mutable_table env exports"
  shows "(\<exists>env1 f hs env2.
     Init env exports = Inr (exports, env1) \<and>
     native env1 = native env \<and>
     Object_Get env1 exports ''language'' = Inr f \<and>
     call_each tsa env1 f infos = Inr (hs, env2) \<and>
     native env2 = snd (accessor_calls tsa (native env) (length infos)) \<and>
     ((\<forall>n. snd (tsa n) = n) \<longrightarrow> native env2 = native env)) \<and>
   native (snd (language tsa env info)) = snd (tsa (native env))"
proof -
  from assms have v: "exports < length (heap env)"
    by (rule mutable_table_valid)
  from assms obtain env1 where i: "Init env exports = Inr (exports, env1)"
    and n: "native env1 = native env"
    and len: "length (heap env1) = Suc (length (heap env))"
    and lg: "Object_Get env1 exports ''language'' = Inr (Ref (length (heap env)))"
    and "Object_Get env1 exports ''name'' = Inr (Str ''allium'')"
    and k: "kind (heap env1 ! length (heap env)) = Function ''language'' Language_lambda"
    by (rule Init_valid_facts)
  from len have r: "length (heap env) < length (heap env1)"
    by simp
  note calls = call_each_result [OF r k, of tsa infos]
  let ?env2 = "env1\<lparr>heap := heap env1 @
                    map external_object
                      (fst (accessor_calls tsa (native env1) (length infos))),
                native := snd (accessor_calls tsa (native env1) (length infos))\<rparr>"
  have n2: "native ?env2 = snd (accessor_calls tsa (native env) (length infos))"
    by (simp add: n)
  have ro: "(\<forall>n. snd (tsa n) = n) \<longrightarrow> native ?env2 = native env"
    by (simp add: n accessor_calls_read_only)
  have l: "native (snd (language tsa env info)) = snd (tsa (native env))"
    by (simp add: language_result)
  from i n lg calls n2 ro l show ?thesis
    by blast
qed

theorem descriptor_not_written_witness:
  "\<exists>env1 f hs env2.
     Init \<lparr>heap = [empty_table], native = [1, 2, 3 :: nat]\<rparr> 0
       = Inr (0, env1) \<and>
     native env1 = [1, 2, 3] \<and>
     Object_Get env1 0 ''language'' = Inr f \<and>
     call_each (\<lambda>n. (4096, n)) env1 f [[], []] = Inr (hs, env2) \<and>
     native env2 = [1, 2, 3]"
proof -
  let ?E = "\<lparr>heap = [empty_table], native = [1, 2, 3 :: nat]\<rparr>"
  have "mutable_table ?E 0"
    by (simp add: mutable_table_def can_set_def empty_table_def)
  from descriptor_not_written [OF this, of "\<lambda>n. (4096, n)" "[[], []]"]
  obtain env1 f hs env2 where "Init ?E 0 = Inr (0, env1)"
    and "native env1 = native ?E"
    and "Object_Get env1 0 ''language'' = Inr f"
    and "call_each (\<lambda>n. (4096, n)) env1 f [[], []] = Inr (hs, env2)"
    and "(\<forall>n :: nat list. snd ((\<lambda>n. (4096 :: nat, n)) n) = n) \<longrightarrow> native env2 = native ?E"
    by blast
  then show ?thesis
    by (intro exI [of _ env1] exI [of _ f] exI [of _ hs] exI [of _ env2]) simp
qed

end
